theory Spec2Isabelle
  imports Main "HOL-Library.Word" "HOL-Library.Sublist" "HOL-Library.Multiset"
begin

section \<open>Product catalogue controllers (controller/createProduct.js)\<close>

text \<open>
  The controllers are thin handlers over a Mongoose model, an Express response object and
  the Braintree gateway. Each handler is embedded as a function from the request and the
  collections it reads to what it does with the response (\<open>outcome\<close>) and the collections
  it leaves behind. An object id is the number its 24 hexadecimal digits denote;
  \<open>DeleteProduct\<close> is given the raw id parameter and casts it, the photo and update
  handlers are given the id their parameter casts to. Numbers are integers.
\<close>

subsection \<open>Documents\<close>

type_synonym oid = nat
type_synonym byte = "8 word"

record photo_t =
  data :: "byte list option"
  contentType :: "string option"

record category_doc =
  c_id :: oid
  c_name :: string
  c_slug :: string

text \<open>The \<open>category\<close> path holds a reference; \<open>populate\<close> replaces it by the referenced
  document, or by null when the reference dangles.\<close>

datatype category_field = CategoryId oid | CategoryDoc "category_doc option"

text \<open>A product document. \<open>photo = None\<close> is a document whose \<open>photo\<close> path has been
  projected away (or was never stored).\<close>

record product =
  p_id :: oid
  name :: string
  slug :: string
  description :: string
  price :: int
  category :: category_field
  quantity :: int
  shipping :: "bool option"
  photo :: "photo_t option"
  createdAt :: nat

record line_item =
  li_product :: oid
  li_price :: int
  li_quantity :: int

type_synonym gateway_result = string
type_synonym gateway_error = string

record order =
  o_products :: "line_item list"
  o_payment :: gateway_result
  o_buyer :: oid

record db =
  products :: "product list"
  categories :: "category_doc list"
  orders :: "order list"

subsection \<open>Exceptions, responses, outcomes\<close>

datatype exn =
    TypeError string
  | ReferenceError string
  | NotFoundError string
  | ValidationError string
  | CastError string
  | MongoServerError string
  | ENOENT string

fun message :: "exn \<Rightarrow> string" where
  "message (TypeError m) = m"
| "message (ReferenceError m) = m"
| "message (NotFoundError m) = m"
| "message (ValidationError m) = m"
| "message (CastError m) = m"
| "message (MongoServerError m) = m"
| "message (ENOENT m) = m"

text \<open>The JSON bodies the handlers send, one constructor per shape:
  \<open>{error}\<close>, \<open>{success: true, message, product}\<close> (the document or null),
  \<open>{success: true, products}\<close>, \<open>{success: false, message}\<close>, a bare array, a buffer,
  \<open>{ok: true}\<close> and the gateway's error object.\<close>

datatype body =
    ErrorBody string
  | SuccessMessageProduct string "product option"
  | SuccessProducts "product list"
  | FailureMessage string
  | ProductArray "product list"
  | Bytes "byte list option"
  | OkTrue
  | GatewayErrorBody "gateway_error option"

record response =
  status :: nat
  header_ContentType :: "string option"
  body :: body

text \<open>What a handler does with the response object: it sends one, it throws out of the
  handler, or it returns having sent nothing (the request is left without a response).\<close>

datatype outcome = Sent response | Thrown exn | NoResponse

definition send :: "nat \<Rightarrow> body \<Rightarrow> outcome" where
  "send st b = Sent \<lparr>status = st, header_ContentType = None, body = b\<rparr>"

subsection \<open>JavaScript values\<close>

text \<open>\<open>!x\<close> for a value that is a string or undefined: undefined and the empty string
  are falsy, every other string is truthy.\<close>

definition falsy :: "string option \<Rightarrow> bool" where
  "falsy v = (case v of None \<Rightarrow> True | Some s \<Rightarrow> s = [])"

datatype jsnum = NaN | Num int

definition is_digit :: "char \<Rightarrow> bool" where
  "is_digit c = (48 \<le> (of_char c :: nat) \<and> (of_char c :: nat) \<le> 57)"

definition digit_val :: "char \<Rightarrow> int" where
  "digit_val c = int (of_char c) - 48"

text \<open>ToNumber on a string, for decimal numerals: the empty string is 0, a string of
  decimal digits is its value, and any other string is read as NaN (signs, fractions,
  exponents, hexadecimal and surrounding white space are not modelled).\<close>

definition ToNumber :: "string \<Rightarrow> jsnum" where
  "ToNumber s =
     (if list_all is_digit s then Num (foldl (\<lambda>n c. 10 * n + digit_val c) 0 s) else NaN)"



subsection \<open>The Mongoose model\<close>

text \<open>A query is built by chained calls and executed when awaited: whatever the order of
  the calls, the server filters, then sorts, then skips, then limits, and the selected
  fields and populated paths are applied to the documents found.\<close>

record query =
  conditions :: "product \<Rightarrow> bool"
  minus_photo :: bool
  populate_category :: bool
  skip_opt :: "jsnum option"
  limit_opt :: "nat option"
  sort_createdAt_desc :: bool

definition find_q :: "(product \<Rightarrow> bool) \<Rightarrow> query" where
  "find_q c = \<lparr>conditions = c, minus_photo = False, populate_category = False,
     skip_opt = None, limit_opt = None, sort_createdAt_desc = False\<rparr>"

definition select_minus_photo :: "query \<Rightarrow> query" where
  "select_minus_photo q = q\<lparr>minus_photo := True\<rparr>"

definition populate_q :: "query \<Rightarrow> query" where
  "populate_q q = q\<lparr>populate_category := True\<rparr>"




definition without_photo :: "product \<Rightarrow> product" where
  "without_photo p = p\<lparr>photo := None\<rparr>"

definition resolve_category :: "category_doc list \<Rightarrow> product \<Rightarrow> product" where
  "resolve_category cs p =
     (case category p of
        CategoryId c \<Rightarrow> p\<lparr>category := CategoryDoc (find (\<lambda>d. c_id d = c) cs)\<rparr>
      | CategoryDoc d \<Rightarrow> p)"

definition shape :: "category_doc list \<Rightarrow> query \<Rightarrow> product \<Rightarrow> product" where
  "shape cs q p =
     (let p1 = (if minus_photo q then without_photo p else p)
      in if populate_category q then resolve_category cs p1 else p1)"

text \<open>Newest first: a stable sort on the creation time, descending.\<close>

definition newest_first :: "product list \<Rightarrow> product list" where
  "newest_first ps = sort_key (\<lambda>p. - int (createdAt p)) ps"

text \<open>Executing \<open>find\<close>. A skip that is not a number, or is negative, is refused by the
  driver.\<close>

definition exec_find :: "db \<Rightarrow> query \<Rightarrow> exn + product list" where
  "exec_find d q =
     (let found = filter (conditions q) (products d);
          sorted_ps = (if sort_createdAt_desc q then newest_first found else found);
          limited = (\<lambda>ps. case limit_opt q of None \<Rightarrow> ps | Some n \<Rightarrow> take n ps)
      in case skip_opt q of
           None \<Rightarrow> Inr (map (shape (categories d) q) (limited sorted_ps))
         | Some NaN \<Rightarrow> Inl (MongoServerError ''skip must be a number'')
         | Some (Num k) \<Rightarrow>
             if k < 0 then Inl (MongoServerError ''skip value must be non-negative'')
             else Inr (map (shape (categories d) q) (limited (drop (nat k) sorted_ps))))"

definition exec_findOne :: "db \<Rightarrow> query \<Rightarrow> product option" where
  "exec_findOne d q = map_option (shape (categories d) q) (find (conditions q) (products d))"

definition findById :: "product list \<Rightarrow> oid \<Rightarrow> product option" where
  "findById ps i = find (\<lambda>p. p_id p = i) ps"

fun delete_first :: "('a \<Rightarrow> bool) \<Rightarrow> 'a list \<Rightarrow> 'a list" where
  "delete_first P [] = []"
| "delete_first P (x # xs) = (if P x then xs else x # delete_first P xs)"

text \<open>Casting a request parameter to an ObjectId: a string of 24 hexadecimal digits casts
  to the id it denotes, any other string does not cast.\<close>

definition is_hex :: "char \<Rightarrow> bool" where
  "is_hex c =
     (is_digit c \<or> (97 \<le> (of_char c :: nat) \<and> (of_char c :: nat) \<le> 102)
      \<or> (65 \<le> (of_char c :: nat) \<and> (of_char c :: nat) \<le> 70))"

definition hex_val :: "char \<Rightarrow> nat" where
  "hex_val c =
     (if is_digit c then of_char c - 48
      else if 97 \<le> (of_char c :: nat) then of_char c - 87
      else of_char c - 55)"

definition cast_to_ObjectId :: "string \<Rightarrow> oid option" where
  "cast_to_ObjectId s =
     (if length s = 24 \<and> list_all is_hex s
      then Some (foldl (\<lambda>n c. 16 * n + hex_val c) 0 s) else None)"

text \<open>\<open>findByIdAndDelete\<close> on the raw id string: an id that does not cast makes the query
  throw a CastError; otherwise the result is the document as it was, or null, and the
  collection without it.\<close>

definition findByIdAndDelete :: "product list \<Rightarrow> string
    \<Rightarrow> exn + (product option \<times> product list)" where
  "findByIdAndDelete ps s =
     (case cast_to_ObjectId s of
        None \<Rightarrow> Inl (CastError ''Cast to ObjectId failed'')
      | Some i \<Rightarrow> Inr (findById ps i, delete_first (\<lambda>p. p_id p = i) ps))"

fun replace_first :: "('a \<Rightarrow> bool) \<Rightarrow> 'a \<Rightarrow> 'a list \<Rightarrow> 'a list" where
  "replace_first P y [] = []"
| "replace_first P y (x # xs) = (if P x then y # xs else x # replace_first P y xs)"


subsection \<open>Collaborators outside the controller\<close>

text \<open>The schema of the model (model/ProductModel.js), the slug function, the file
  system, the id generator and the clock lie outside the controller. The casts the schema
  applies to submitted form fields, and the other collaborators, are parameters of the
  handlers that use them.\<close>

record deps =
  slugify :: "string \<Rightarrow> string"
  readFileSync :: "string \<Rightarrow> byte list option"
  castNumber :: "string \<Rightarrow> int option"
  castObjectId :: "string \<Rightarrow> oid option"
  castBoolean :: "string \<Rightarrow> bool option"
  newObjectId :: "product list \<Rightarrow> oid"
  now :: nat

text \<open>The identifiers bound in the controller module: its imports, the gateway object
  and the handlers it declares.\<close>

definition module_scope :: "string list" where
  "module_scope =
     [''slugify'', ''NotFoundError'', ''asyncWrapper'', ''ProductModel'', ''CategoryModels'',
      ''fs'', ''braintree'', ''dotenv'', ''gateway'',
      ''CreateProducts'', ''getAllProducts'', ''DeleteProduct'', ''getProduct'',
      ''UpdateProduct'', ''productPhotoContrller'', ''productFilter'', ''productCounter'',
      ''productList'', ''ProductSearch'', ''relatedProduct'', ''productCategroyController'',
      ''braintreeTokenController'', ''brainTreePaymentController'']"

definition bound_in_module :: "string \<Rightarrow> bool" where
  "bound_in_module x = (x \<in> set module_scope)"

subsection \<open>Requests\<close>

text \<open>\<open>req.fields\<close> and \<open>req.files.photo\<close> as the multipart parser leaves them: every
  field is a string or undefined, the photo is an uploaded file or undefined.\<close>

record form_fields =
  f_name :: "string option"
  f_description :: "string option"
  f_price :: "string option"
  f_category :: "string option"
  f_quantity :: "string option"
  f_shipping :: "string option"

record file_upload =
  u_path :: string
  u_size :: nat
  u_type :: string

record product_req =
  req_fields :: form_fields
  req_photo :: "file_upload option"

record filter_body =
  checked :: "oid list option"
  radio :: "int list option"

record filter_args =
  arg_category :: "oid list option"
  arg_price :: "(int option \<times> int option) option"

record sale_request =
  amount :: int
  paymentMethodNonce :: "string option"
  submitForSettlement :: bool

text \<open>The gateway answers a sale through its callback \<open>(error, result)\<close>.\<close>

type_synonym gateway = "sale_request \<Rightarrow> gateway_error option \<times> gateway_result option"

record payment_req =
  nonce :: "string option"
  cart :: "line_item list option"
  user_id :: oid

record payment_run =
  pr_outcome :: outcome
  pr_orders :: "order list"
  pr_sale :: "sale_request option"

definition str :: "string option \<Rightarrow> string" where
  "str v = (case v of None \<Rightarrow> [] | Some s \<Rightarrow> s)"

subsection \<open>CreateProducts\<close>

definition photo_message :: string where
  "photo_message = ''Photo is Required and should be less than 1MB''"

text \<open>The schema's casts of the submitted price, category, quantity and shipping flag;
  \<open>None\<close> when one of them does not cast.\<close>

record cast_values =
  k_price :: int
  k_category :: oid
  k_quantity :: int
  k_shipping :: "bool option"

definition cast_fields :: "deps \<Rightarrow> form_fields \<Rightarrow> cast_values option" where
  "cast_fields e f =
     (case (castNumber e (str (f_price f)), castObjectId e (str (f_category f)),
            castNumber e (str (f_quantity f)),
            (case f_shipping f of None \<Rightarrow> Some None
             | Some s \<Rightarrow> map_option Some (castBoolean e s))) of
        (Some pr, Some c, Some q, Some sh) \<Rightarrow>
          Some \<lparr>k_price = pr, k_category = c, k_quantity = q, k_shipping = sh\<rparr>
      | _ \<Rightarrow> None)"

text \<open>\<open>new ProductModel({...req.fields, slug})\<close> followed by \<open>save\<close>: a field that does
  not cast fails validation when saving.\<close>

definition new_ProductModel :: "deps \<Rightarrow> form_fields \<Rightarrow> string \<Rightarrow> photo_t \<Rightarrow> product list
    \<Rightarrow> exn + product" where
  "new_ProductModel e f sl ph ps =
     (case cast_fields e f of
        Some k \<Rightarrow>
          Inr \<lparr>p_id = newObjectId e ps, name = str (f_name f), slug = sl,
               description = str (f_description f), price = k_price k,
               category = CategoryId (k_category k), quantity = k_quantity k,
               shipping = k_shipping k, photo = Some ph, createdAt = now e\<rparr>
      | None \<Rightarrow> Inl (ValidationError ''Product validation failed''))"

text \<open>The body of the \<open>try\<close> block: \<open>Inl\<close> is an exception thrown inside it.\<close>

definition CreateProducts_try :: "deps \<Rightarrow> product_req \<Rightarrow> db \<Rightarrow> exn + (outcome \<times> db)" where
  "CreateProducts_try e req d =
     (let f = req_fields req in
      if falsy (f_name f) then Inl (NotFoundError ''Name is Required'')
      else if falsy (f_description f) then Inl (NotFoundError ''Description is Required'')
      else if falsy (f_price f) then Inl (NotFoundError ''Price is Required'')
      else if falsy (f_category f) then Inl (NotFoundError ''Category is Required'')
      else if falsy (f_quantity f) then Inl (NotFoundError ''Quantity is Required'')
      else
        (case req_photo req of
           None \<Rightarrow> Inr (send 400 (ErrorBody photo_message), d)
         | Some up \<Rightarrow>
             if u_size up > 1000000 then Inr (send 400 (ErrorBody photo_message), d)
             else
               (case readFileSync e (u_path up) of
                  None \<Rightarrow> Inl (ENOENT ''no such file or directory'')
                | Some bytes \<Rightarrow>
                    (case new_ProductModel e f (slugify e (str (f_name f)))
                            \<lparr>data = Some bytes, contentType = Some (u_type up)\<rparr> (products d) of
                       Inl err \<Rightarrow> Inl err
                     | Inr doc \<Rightarrow>
                         Inr (send 200 (SuccessMessageProduct ''Product Created Successfully''
                                (Some doc)),
                              d\<lparr>products := products d @ [doc]\<rparr>)))))"

text \<open>The \<open>catch\<close> clause answers every exception of the block with status 500 and the
  exception's message.\<close>

definition CreateProducts :: "deps \<Rightarrow> product_req \<Rightarrow> db \<Rightarrow> outcome \<times> db" where
  "CreateProducts e req d =
     (case CreateProducts_try e req d of
        Inr r \<Rightarrow> r
      | Inl err \<Rightarrow>
          (send 500 (ErrorBody (if message err = [] then ''Internal Server Error''
                                else message err)), d))"

subsection \<open>DeleteProduct and getProduct\<close>

text \<open>\<open>DeleteProduct\<close> hands \<open>req.params.id\<close> to the query as it is and has no \<open>try\<close>
  block: an exception of the query leaves the handler.\<close>

definition DeleteProduct :: "string \<Rightarrow> db \<Rightarrow> outcome \<times> db" where
  "DeleteProduct id_param d =
     (case findByIdAndDelete (products d) id_param of
        Inl err \<Rightarrow> (Thrown err, d)
      | Inr (found, rest) \<Rightarrow>
          (send 200 (SuccessMessageProduct '' Deleting the product successfully  '' found),
           d\<lparr>products := rest\<rparr>))"

definition getProduct :: "string \<Rightarrow> db \<Rightarrow> outcome" where
  "getProduct s d =
     send 200 (SuccessMessageProduct '' Single the  Product Fetched  ''
       (exec_findOne d (select_minus_photo (populate_q (find_q (\<lambda>p. slug p = s))))))"

subsection \<open>UpdateProduct\<close>

text \<open>The handler has no \<open>try\<close> block: an exception leaves it. \<open>findByIdAndUpdate\<close>
  writes the cast fields before the photo is read, and \<open>save\<close> writes the photo.\<close>

definition UpdateProduct :: "deps \<Rightarrow> oid \<Rightarrow> product_req \<Rightarrow> db \<Rightarrow> outcome \<times> db" where
  "UpdateProduct e i req d =
     (let f = req_fields req in
      if falsy (f_name f) then (send 500 (ErrorBody ''Name is Required''), d)
      else if falsy (f_description f) then (send 500 (ErrorBody ''Description is Required''), d)
      else if falsy (f_price f) then (send 500 (ErrorBody ''Price is Required''), d)
      else if falsy (f_category f) then (send 500 (ErrorBody ''Category is Required''), d)
      else if falsy (f_quantity f) then (send 500 (ErrorBody ''Quantity is Required''), d)
      else if (case req_photo req of None \<Rightarrow> False | Some up \<Rightarrow> u_size up > 1000000)
        then (send 500 (ErrorBody photo_message), d)
      else
        (case cast_fields e f of
           None \<Rightarrow> (Thrown (CastError ''Cast failed''), d)
         | Some k \<Rightarrow>
             (case findById (products d) i of
                None \<Rightarrow> (Thrown (TypeError ''Cannot read properties of null''), d)
              | Some old \<Rightarrow>
                  (let upd = old\<lparr>name := str (f_name f), slug := slugify e (str (f_name f)),
                                 description := str (f_description f), price := k_price k,
                                 category := CategoryId (k_category k),
                                 quantity := k_quantity k,
                                 shipping := (case f_shipping f of None \<Rightarrow> shipping old
                                              | Some s \<Rightarrow> k_shipping k)\<rparr>;
                       d1 = d\<lparr>products := replace_first (\<lambda>p. p_id p = i) upd (products d)\<rparr>
                   in case req_photo req of
                        None \<Rightarrow>
                          (send 201 (SuccessMessageProduct ''Product Updated Successfully''
                             (Some upd)), d1)
                      | Some up \<Rightarrow>
                          (case readFileSync e (u_path up) of
                             None \<Rightarrow> (Thrown (ENOENT ''no such file or directory''), d1)
                           | Some bytes \<Rightarrow>
                               (let upd2 = upd\<lparr>photo := Some \<lparr>data = Some bytes,
                                                   contentType = Some (u_type up)\<rparr>\<rparr>
                                in (send 201 (SuccessMessageProduct
                                      ''Product Updated Successfully'' (Some upd2)),
                                    d\<lparr>products :=
                                        replace_first (\<lambda>p. p_id p = i) upd2 (products d1)\<rparr>)))))))"

subsection \<open>productPhotoContrller\<close>

text \<open>A Mongoose document always has its nested \<open>photo\<close> path: reading a sub-field that is
  not stored gives undefined.\<close>

definition photo_contentType :: "product \<Rightarrow> string option" where
  "photo_contentType p = (case photo p of None \<Rightarrow> None | Some ph \<Rightarrow> contentType ph)"

definition photo_data :: "product \<Rightarrow> byte list option" where
  "photo_data p = (case photo p of None \<Rightarrow> None | Some ph \<Rightarrow> data ph)"

text \<open>\<open>select("photo")\<close> keeps the path the handler reads. \<open>header_ContentType\<close> is the
  value given to \<open>res.set\<close>. When no document is found, the \<open>if\<close> has no other branch and
  the handler returns.\<close>

definition productPhotoContrller :: "oid \<Rightarrow> db \<Rightarrow> outcome" where
  "productPhotoContrller pid d =
     (case findById (products d) pid of
        Some product \<Rightarrow>
          Sent \<lparr>status = 200, header_ContentType = photo_contentType product,
                body = Bytes (photo_data product)\<rparr>
      | None \<Rightarrow> NoResponse)"


subsection \<open>productFilter\<close>

text \<open>\<open>x.length\<close> where \<open>x\<close> is undefined throws.\<close>

definition length_of_undefined :: exn where
  "length_of_undefined = TypeError ''Cannot read properties of undefined (reading length)''"

definition js_index :: "'a list \<Rightarrow> nat \<Rightarrow> 'a option" where
  "js_index xs i = (if i < length xs then Some (xs ! i) else None)"

text \<open>The query object \<open>args\<close>: an array given for the \<open>category\<close> path matches any of
  its elements; \<open>$gte\<close> and \<open>$lte\<close> compare the price, and a bound that is undefined is
  sent as null, which no number satisfies.\<close>

definition matches_args :: "filter_args \<Rightarrow> product \<Rightarrow> bool" where
  "matches_args a p =
     ((case arg_category a of
         None \<Rightarrow> True
       | Some cs \<Rightarrow> (case category p of CategoryId c \<Rightarrow> c \<in> set cs | CategoryDoc x \<Rightarrow> False))
      \<and> (case arg_price a of
            None \<Rightarrow> True
          | Some (Some lo, Some hi) \<Rightarrow> lo \<le> price p \<and> price p \<le> hi
          | Some _ \<Rightarrow> False))"

text \<open>The two \<open>length\<close> reads stand before the \<open>try\<close> block, so their exception leaves the
  handler; only the query is guarded.\<close>

definition productFilter :: "filter_body \<Rightarrow> db \<Rightarrow> outcome" where
  "productFilter b d =
     (case checked b of
        None \<Rightarrow> Thrown length_of_undefined
      | Some cs \<Rightarrow>
          (let args1 = \<lparr>arg_category = (if length cs > 0 then Some cs else None),
                        arg_price = None\<rparr>
           in case radio b of
                None \<Rightarrow> Thrown length_of_undefined
              | Some r \<Rightarrow>
                  (let args = (if length r \<noteq> 0
                               then args1\<lparr>arg_price := Some (js_index r 0, js_index r 1)\<rparr>
                               else args1)
                   in case exec_find d (find_q (matches_args args)) of
                        Inr ps \<Rightarrow> send 201 (SuccessProducts ps)
                      | Inl err \<Rightarrow>
                          send 400 (FailureMessage ''Error in filtering the products''))))"

subsection \<open>productList\<close>


subsection \<open>ProductSearch\<close>

text \<open>The keyword is handed to the store as a regular expression with option \<open>i\<close>. The
  embedding reads the expressions made of literal characters and the dot; \<open>compile_regex\<close>
  is \<open>None\<close> on an expression that uses any other operator.\<close>

datatype ratom = Lit char | AnyChar

definition regex_special :: "char list" where
  "regex_special =
     [CHR ''.'', CHR ''^'', CHR ''$'', CHR ''*'', CHR ''+'', CHR ''?'', CHR ''('', CHR '')'',
      CHR ''['', CHR '']'', CHR ''{'', CHR ''}'', CHR ''|'', CHR 0x5C]"

fun compile_regex :: "string \<Rightarrow> ratom list option" where
  "compile_regex [] = Some []"
| "compile_regex (c # cs) =
     (if c = CHR ''.'' then map_option ((#) AnyChar) (compile_regex cs)
      else if c \<in> set regex_special then None
      else map_option ((#) (Lit c)) (compile_regex cs))"

definition lower :: "char \<Rightarrow> char" where
  "lower c =
     (if 65 \<le> (of_char c :: nat) \<and> (of_char c :: nat) \<le> 90
      then char_of ((of_char c :: nat) + 32) else c)"

fun atom_matches :: "ratom \<Rightarrow> char \<Rightarrow> bool" where
  "atom_matches (Lit a) c = (lower a = lower c)"
| "atom_matches AnyChar c = (c \<noteq> CHR 0x0A)"

fun match_here :: "ratom list \<Rightarrow> string \<Rightarrow> bool" where
  "match_here [] s = True"
| "match_here (a # r) [] = False"
| "match_here (a # r) (c # cs) = (atom_matches a c \<and> match_here r cs)"

fun regex_test :: "ratom list \<Rightarrow> string \<Rightarrow> bool" where
  "regex_test r [] = match_here r []"
| "regex_test r (c # cs) = (match_here r (c # cs) \<or> regex_test r cs)"

text \<open>The result is \<open>None\<close> exactly when the keyword is outside the expressions read
  above.\<close>

definition ProductSearch :: "string option \<Rightarrow> db \<Rightarrow> outcome option" where
  "ProductSearch keyword d =
     (if falsy keyword then Some (send 400 (FailureMessage ''Keyword is required.''))
      else
        (case compile_regex (str keyword) of
           None \<Rightarrow> None
         | Some r \<Rightarrow>
             (case exec_find d
                     (select_minus_photo
                        (find_q (\<lambda>p. regex_test r (name p) \<or> regex_test r (description p)))) of
                Inr ps \<Rightarrow> Some (send 200 (ProductArray ps))
              | Inl err \<Rightarrow> Some (Thrown err))))"

subsection \<open>brainTreePaymentController\<close>

text \<open>The sale is submitted with the total of the \<open>price\<close> fields; the callback then
  constructs the order from the identifier \<open>orderModel\<close>, which has to be bound in the
  module. A cart that is undefined makes \<open>cart.map\<close> throw inside the \<open>try\<close> block, whose
  \<open>catch\<close> only logs.\<close>

definition brainTreePaymentController :: "gateway \<Rightarrow> payment_req \<Rightarrow> order list \<Rightarrow> payment_run" where
  "brainTreePaymentController gw req os =
     (case cart req of
        None \<Rightarrow> \<lparr>pr_outcome = NoResponse, pr_orders = os, pr_sale = None\<rparr>
      | Some c \<Rightarrow>
          (let total = foldl (\<lambda>t i. t + li_price i) 0 c;
               sale = \<lparr>amount = total, paymentMethodNonce = nonce req,
                       submitForSettlement = True\<rparr>
           in case gw sale of
                (error, Some result) \<Rightarrow>
                  if bound_in_module ''orderModel''
                  then \<lparr>pr_outcome = send 200 OkTrue,
                        pr_orders = os @ [\<lparr>o_products = c, o_payment = result,
                                           o_buyer = user_id req\<rparr>],
                        pr_sale = Some sale\<rparr>
                  else \<lparr>pr_outcome = Thrown (ReferenceError ''orderModel is not defined''),
                        pr_orders = os, pr_sale = Some sale\<rparr>
              | (error, None) \<Rightarrow>
                  \<lparr>pr_outcome = send 500 (GatewayErrorBody error), pr_orders = os,
                   pr_sale = Some sale\<rparr>))"


section \<open>Notions of the specification\<close>

text \<open>The required attributes of a create request, in the order the specification gives,
  and the first of them that the request lacks: a form field is lacking when it is absent
  or empty, the photo when no file is uploaded.\<close>

datatype field = Name | Description | Price | Category | Quantity | Photo

fun lacking :: "product_req \<Rightarrow> field \<Rightarrow> bool" where
  "lacking req Name = falsy (f_name (req_fields req))"
| "lacking req Description = falsy (f_description (req_fields req))"
| "lacking req Price = falsy (f_price (req_fields req))"
| "lacking req Category = falsy (f_category (req_fields req))"
| "lacking req Quantity = falsy (f_quantity (req_fields req))"
| "lacking req Photo = (req_photo req = None)"

definition first_lacking :: "product_req \<Rightarrow> field option" where
  "first_lacking req = find (lacking req) [Name, Description, Price, Category, Quantity, Photo]"

fun required_message :: "field \<Rightarrow> string" where
  "required_message Name = ''Name is Required''"
| "required_message Description = ''Description is Required''"
| "required_message Price = ''Price is Required''"
| "required_message Category = ''Category is Required''"
| "required_message Quantity = ''Quantity is Required''"
| "required_message Photo = ''Photo is Required and should be less than 1MB''"

text \<open>A response that rejects the request with one of the validation messages.\<close>

definition rejected :: "outcome \<Rightarrow> bool" where
  "rejected out =
     (case out of
        Sent r \<Rightarrow>
          (status r = 400 \<or> status r = 500) \<and>
          (case body r of
             ErrorBody m \<Rightarrow>
               m \<in> set (map required_message
                          [Name, Description, Price, Category, Quantity, Photo])
           | _ \<Rightarrow> False)
      | _ \<Rightarrow> False)"

text \<open>The keyword occurs in the text as a contiguous run of characters, letter case
  disregarded.\<close>

definition contains_ci :: "string \<Rightarrow> string \<Rightarrow> bool" where
  "contains_ci kw s = sublist (map lower kw) (map lower s)"


section \<open>Sample data\<close>

definition sample_deps :: deps where
  "sample_deps =
     \<lparr>slugify = (\<lambda>s. s), readFileSync = (\<lambda>p. Some []),
      castNumber = (\<lambda>s. case ToNumber s of Num n \<Rightarrow> Some n | NaN \<Rightarrow> None),
      castObjectId = (\<lambda>s. case ToNumber s of Num n \<Rightarrow> Some (nat n) | NaN \<Rightarrow> None),
      castBoolean = (\<lambda>s. Some (s = ''true'')),
      newObjectId = (\<lambda>ps. Suc (fold max (map p_id ps) 0)), now = 700\<rparr>"

definition mk_product :: "oid \<Rightarrow> string \<Rightarrow> string \<Rightarrow> nat \<Rightarrow> product" where
  "mk_product i n dsc t =
     \<lparr>p_id = i, name = n, slug = n, description = dsc, price = 10, category = CategoryId 7,
      quantity = 2, shipping = None,
      photo = Some \<lparr>data = Some [1, 2, 3], contentType = Some ''image/png''\<rparr>,
      createdAt = t\<rparr>"

definition sample_category :: category_doc where
  "sample_category = \<lparr>c_id = 7, c_name = ''Tools'', c_slug = ''tools''\<rparr>"

definition sample_db :: db where
  "sample_db =
     \<lparr>products = [mk_product 1 ''lamp'' ''A Blue light'' 100, mk_product 2 ''desk'' ''oak'' 300,
                  mk_product 3 ''chair'' ''pine'' 200],
      categories = [sample_category], orders = []\<rparr>"


definition empty_db :: db where
  "empty_db = \<lparr>products = [], categories = [], orders = []\<rparr>"

definition full_fields :: form_fields where
  "full_fields =
     \<lparr>f_name = Some ''lamp'', f_description = Some ''A Blue light'', f_price = Some ''10'',
      f_category = Some ''7'', f_quantity = Some ''2'', f_shipping = None\<rparr>"

definition big_photo :: file_upload where
  "big_photo = \<lparr>u_path = ''/tmp/upload_1'', u_size = 1000001, u_type = ''image/png''\<rparr>"

definition accepting_gateway :: gateway where
  "accepting_gateway s = (None, Some ''settled'')"

definition sample_payment :: payment_req where
  "sample_payment =
     \<lparr>nonce = Some ''fake-valid-nonce'',
      cart = Some [\<lparr>li_product = 1, li_price = 10, li_quantity = 1\<rparr>,
                   \<lparr>li_product = 2, li_price = 25, li_quantity = 3\<rparr>],
      user_id = 42\<rparr>"

section \<open>Properties\<close>

subsection \<open>Deleting a product\<close>

lemma find_None_list_ex: "(find P xs = None) = (\<not> list_ex P xs)"
  by (induction xs) auto

lemma delete_first_distinct:
  "distinct (map f xs) \<Longrightarrow> delete_first (\<lambda>x. f x = k) xs = filter (\<lambda>x. f x \<noteq> k) xs"
proof (induction xs)
  case Nil
  show ?case by simp
next
  case (Cons x xs)
  show ?case
  proof (cases "f x = k")
    case True
    from Cons.prems have "f x \<notin> f ` set xs" by simp
    with True have "\<forall>y\<in>set xs. f y \<noteq> k" by blast
    then have "filter (\<lambda>x. f x \<noteq> k) xs = xs" by (simp add: filter_id_conv)
    with True show ?thesis by simp
  next
    case False
    with Cons show ?thesis by simp
  qed
qed

lemma delete_first_absent: "\<not> list_ex P xs \<Longrightarrow> delete_first P xs = xs"
  by (induction xs) auto

text \<open>
  C9 (as amended). In a collection whose ids are unique, a delete request whose id casts to
  an object id is answered 200 with the record that carried the id as it was before the
  deletion (null when there is none); it leaves a collection holding every other record
  and none with that id, and touches nothing else; when no record has the id it still
  answers 200, with null, and the store is unchanged. A delete request whose id does not
  cast fails with a CastError and removes nothing.
\<close>

theorem DeleteProduct_removes_and_returns_prior:
  assumes "distinct (map p_id (products d))"
  shows "(cast_to_ObjectId s = Some i \<longrightarrow>
           fst (DeleteProduct s d) =
             send 200 (SuccessMessageProduct '' Deleting the product successfully  ''
               (find (\<lambda>p. p_id p = i) (products d)))
         \<and> products (snd (DeleteProduct s d)) = filter (\<lambda>p. p_id p \<noteq> i) (products d)
         \<and> categories (snd (DeleteProduct s d)) = categories d
         \<and> orders (snd (DeleteProduct s d)) = orders d
         \<and> (\<not> list_ex (\<lambda>p. p_id p = i) (products d) \<longrightarrow>
              DeleteProduct s d =
                (send 200 (SuccessMessageProduct '' Deleting the product successfully  '' None),
                 d)))
       \<and> (cast_to_ObjectId s = None \<longrightarrow>
            DeleteProduct s d = (Thrown (CastError ''Cast to ObjectId failed''), d))"
proof (intro conjI impI)
  assume "cast_to_ObjectId s = None"
  then show "DeleteProduct s d = (Thrown (CastError ''Cast to ObjectId failed''), d)"
    by (simp add: DeleteProduct_def findByIdAndDelete_def)
next
  assume c: "cast_to_ObjectId s = Some i"
  have del: "delete_first (\<lambda>p. p_id p = i) (products d) = filter (\<lambda>p. p_id p \<noteq> i) (products d)"
    using assms by (rule delete_first_distinct)
  show "fst (DeleteProduct s d) =
      send 200 (SuccessMessageProduct '' Deleting the product successfully  ''
        (find (\<lambda>p. p_id p = i) (products d)))"
    by (simp add: DeleteProduct_def findByIdAndDelete_def findById_def c)
  show "products (snd (DeleteProduct s d)) = filter (\<lambda>p. p_id p \<noteq> i) (products d)"
    by (simp add: DeleteProduct_def findByIdAndDelete_def c del)
  show "categories (snd (DeleteProduct s d)) = categories d"
    by (simp add: DeleteProduct_def findByIdAndDelete_def c)
  show "orders (snd (DeleteProduct s d)) = orders d"
    by (simp add: DeleteProduct_def findByIdAndDelete_def c)
  assume "\<not> list_ex (\<lambda>p. p_id p = i) (products d)"
  then have "find (\<lambda>p. p_id p = i) (products d) = None"
    and "delete_first (\<lambda>p. p_id p = i) (products d) = products d"
    by (simp_all add: find_None_list_ex delete_first_absent)
  then show "DeleteProduct s d =
      (send 200 (SuccessMessageProduct '' Deleting the product successfully  '' None), d)"
    by (simp add: DeleteProduct_def findByIdAndDelete_def findById_def c)
qed

lemma cast_to_ObjectId_samples:
  "cast_to_ObjectId ''000000000000000000000002'' = Some 2"
  "cast_to_ObjectId ''00000000000000000000000a'' = Some 10"
  "cast_to_ObjectId ''abc'' = None"
  by (simp_all add: cast_to_ObjectId_def is_hex_def is_digit_def hex_val_def)

theorem DeleteProduct_witness:
  "distinct (map p_id (products sample_db))
   \<and> cast_to_ObjectId ''000000000000000000000002'' = Some 2
   \<and> fst (DeleteProduct ''000000000000000000000002'' sample_db) =
       send 200 (SuccessMessageProduct '' Deleting the product successfully  ''
         (Some (mk_product 2 ''desk'' ''oak'' 300)))
   \<and> products (snd (DeleteProduct ''000000000000000000000002'' sample_db)) =
       [mk_product 1 ''lamp'' ''A Blue light'' 100, mk_product 3 ''chair'' ''pine'' 200]
   \<and> cast_to_ObjectId ''00000000000000000000000a'' = Some 10
   \<and> DeleteProduct ''00000000000000000000000a'' sample_db =
       (send 200 (SuccessMessageProduct '' Deleting the product successfully  '' None), sample_db)
   \<and> cast_to_ObjectId ''abc'' = None
   \<and> DeleteProduct ''abc'' sample_db = (Thrown (CastError ''Cast to ObjectId failed''), sample_db)"
proof -
  have h: "distinct (map p_id (products sample_db))"
    by (simp add: sample_db_def mk_product_def)
  show ?thesis
    using h DeleteProduct_removes_and_returns_prior [OF h, of "''000000000000000000000002''" 2]
      DeleteProduct_removes_and_returns_prior [OF h, of "''00000000000000000000000a''" 10]
      DeleteProduct_removes_and_returns_prior [OF h, of "''abc''" 0]
    by (simp add: cast_to_ObjectId_samples) (simp add: sample_db_def mk_product_def)
qed

text \<open>The id \<open>abc\<close> names no record and does not cast: the request fails with a CastError
  instead of being answered with null.\<close>

theorem DeleteProduct_malformed_id_counterexample:
  "\<not> list_ex (\<lambda>p. cast_to_ObjectId ''abc'' = Some (p_id p)) (products sample_db)
   \<and> DeleteProduct ''abc'' sample_db = (Thrown (CastError ''Cast to ObjectId failed''), sample_db)"
  by (simp add: DeleteProduct_def findByIdAndDelete_def cast_to_ObjectId_samples sample_db_def)

subsection \<open>Fetching a product by slug\<close>

lemma find_Some_first: "find P xs = Some x \<Longrightarrow> x \<in> set xs \<and> P x"
  by (induction xs) (auto split: if_splits)

lemma shape_minus_photo_populated:
  "minus_photo q \<Longrightarrow> populate_category q \<Longrightarrow>
   shape cs q = (\<lambda>p. resolve_category cs (without_photo p))"
  by (rule ext) (simp add: shape_def)

lemma shape_minus_photo:
  "minus_photo q \<Longrightarrow> \<not> populate_category q \<Longrightarrow> shape cs q = without_photo"
  by (rule ext) (simp add: shape_def)

lemma getProduct_unfold:
  "getProduct s d =
     send 200 (SuccessMessageProduct '' Single the  Product Fetched  ''
       (map_option (\<lambda>p. resolve_category (categories d) (without_photo p))
          (find (\<lambda>p. slug p = s) (products d))))"
  by (simp add: getProduct_def exec_findOne_def shape_minus_photo_populated
      select_minus_photo_def populate_q_def find_q_def)

lemma resolve_without_photo:
  "photo (resolve_category cs (without_photo p)) = None
   \<and> p_id (resolve_category cs (without_photo p)) = p_id p
   \<and> slug (resolve_category cs (without_photo p)) = slug p
   \<and> name (resolve_category cs (without_photo p)) = name p
   \<and> description (resolve_category cs (without_photo p)) = description p
   \<and> price (resolve_category cs (without_photo p)) = price p
   \<and> quantity (resolve_category cs (without_photo p)) = quantity p"
  by (simp add: resolve_category_def without_photo_def split: category_field.splits)

lemma resolve_category_ref:
  "category p = CategoryId c \<Longrightarrow>
   category (resolve_category cs (without_photo p)) = CategoryDoc (find (\<lambda>x. c_id x = c) cs)"
  by (simp add: resolve_category_def without_photo_def)

text \<open>
  C2 (as amended). \<open>getProduct\<close> always answers 200. When some product has the slug, the
  body carries exactly one product, the first with that slug, with its category reference
  replaced by the referenced category document and its photo excluded; when no product
  has the slug, the body carries null in place of the product, and no not-found status is
  signalled.
\<close>

theorem getProduct_by_slug:
  "(list_ex (\<lambda>p. slug p = s) (products d) \<longrightarrow>
      (\<exists>p r. find (\<lambda>p. slug p = s) (products d) = Some p \<and> p \<in> set (products d) \<and> slug p = s
         \<and> getProduct s d =
             send 200 (SuccessMessageProduct '' Single the  Product Fetched  '' (Some r))
         \<and> r = resolve_category (categories d) (without_photo p)
         \<and> photo r = None \<and> p_id r = p_id p \<and> slug r = s
         \<and> (\<forall>c. category p = CategoryId c \<longrightarrow>
               category r = CategoryDoc (find (\<lambda>x. c_id x = c) (categories d)))))
   \<and> (\<not> list_ex (\<lambda>p. slug p = s) (products d) \<longrightarrow>
        getProduct s d =
          send 200 (SuccessMessageProduct '' Single the  Product Fetched  '' None))"
proof (intro conjI impI)
  assume "list_ex (\<lambda>p. slug p = s) (products d)"
  then have "find (\<lambda>p. slug p = s) (products d) \<noteq> None"
    by (simp add: find_None_list_ex)
  then obtain p where p: "find (\<lambda>p. slug p = s) (products d) = Some p" by blast
  then have mem: "p \<in> set (products d) \<and> slug p = s" by (rule find_Some_first)
  let ?r = "resolve_category (categories d) (without_photo p)"
  have "getProduct s d =
      send 200 (SuccessMessageProduct '' Single the  Product Fetched  '' (Some ?r))"
    by (simp add: getProduct_unfold p)
  with p mem show "\<exists>p r. find (\<lambda>p. slug p = s) (products d) = Some p \<and> p \<in> set (products d) \<and> slug p = s
         \<and> getProduct s d =
             send 200 (SuccessMessageProduct '' Single the  Product Fetched  '' (Some r))
         \<and> r = resolve_category (categories d) (without_photo p)
         \<and> photo r = None \<and> p_id r = p_id p \<and> slug r = s
         \<and> (\<forall>c. category p = CategoryId c \<longrightarrow>
               category r = CategoryDoc (find (\<lambda>x. c_id x = c) (categories d)))"
    by (auto simp: resolve_without_photo resolve_category_ref)
next
  assume "\<not> list_ex (\<lambda>p. slug p = s) (products d)"
  then have "find (\<lambda>p. slug p = s) (products d) = None"
    by (simp add: find_None_list_ex)
  then show "getProduct s d =
      send 200 (SuccessMessageProduct '' Single the  Product Fetched  '' None)"
    by (simp add: getProduct_unfold)
qed

theorem getProduct_by_slug_witness:
  "list_ex (\<lambda>p. slug p = ''desk'') (products sample_db)
   \<and> getProduct ''desk'' sample_db =
       send 200 (SuccessMessageProduct '' Single the  Product Fetched  ''
         (Some ((mk_product 2 ''desk'' ''oak'' 300)
            \<lparr>category := CategoryDoc (Some sample_category), photo := None\<rparr>)))
   \<and> \<not> list_ex (\<lambda>p. slug p = ''sofa'') (products sample_db)
   \<and> getProduct ''sofa'' sample_db =
       send 200 (SuccessMessageProduct '' Single the  Product Fetched  '' None)"
  using getProduct_by_slug [of "''desk''" sample_db] getProduct_by_slug [of "''sofa''" sample_db]
  by (simp add: sample_db_def mk_product_def sample_category_def resolve_category_def
      without_photo_def)

text \<open>A slug that no product has is answered with status 200 and a null product.\<close>

theorem getProduct_no_match_counterexample:
  "getProduct ''sofa'' sample_db =
     Sent \<lparr>status = 200, header_ContentType = None,
           body = SuccessMessageProduct '' Single the  Product Fetched  '' None\<rparr>"
  by (simp add: getProduct_unfold send_def sample_db_def mk_product_def)

subsection \<open>Filtering\<close>

text \<open>
  C10. When the body omits \<open>checked\<close> or omits \<open>radio\<close>, \<open>productFilter\<close> throws the
  TypeError of reading \<open>length\<close> of undefined, whatever the store holds: no query is
  run and no product list is sent.
\<close>

theorem productFilter_throws_on_omitted_field:
  "checked b = None \<or> radio b = None \<Longrightarrow> productFilter b d = Thrown length_of_undefined"
  by (auto simp: productFilter_def Let_def split: option.splits)

theorem productFilter_throws_witness:
  "productFilter \<lparr>checked = None, radio = Some [0, 19]\<rparr> sample_db = Thrown length_of_undefined
   \<and> productFilter \<lparr>checked = Some [7], radio = None\<rparr> sample_db = Thrown length_of_undefined
   \<and> productFilter \<lparr>checked = None, radio = None\<rparr> sample_db = Thrown length_of_undefined"
  using productFilter_throws_on_omitted_field [of "\<lparr>checked = None, radio = Some [0, 19]\<rparr>" sample_db]
    productFilter_throws_on_omitted_field [of "\<lparr>checked = Some [7], radio = None\<rparr>" sample_db]
    productFilter_throws_on_omitted_field [of "\<lparr>checked = None, radio = None\<rparr>" sample_db]
  by simp

subsection \<open>Validation in CreateProducts\<close>

lemma CreateProducts_missing_field:
  "falsy (f_name (req_fields req)) \<Longrightarrow>
     CreateProducts e req d = (send 500 (ErrorBody ''Name is Required''), d)"
  "\<not> falsy (f_name (req_fields req)) \<Longrightarrow> falsy (f_description (req_fields req)) \<Longrightarrow>
     CreateProducts e req d = (send 500 (ErrorBody ''Description is Required''), d)"
  "\<not> falsy (f_name (req_fields req)) \<Longrightarrow> \<not> falsy (f_description (req_fields req)) \<Longrightarrow>
   falsy (f_price (req_fields req)) \<Longrightarrow>
     CreateProducts e req d = (send 500 (ErrorBody ''Price is Required''), d)"
  "\<not> falsy (f_name (req_fields req)) \<Longrightarrow> \<not> falsy (f_description (req_fields req)) \<Longrightarrow>
   \<not> falsy (f_price (req_fields req)) \<Longrightarrow> falsy (f_category (req_fields req)) \<Longrightarrow>
     CreateProducts e req d = (send 500 (ErrorBody ''Category is Required''), d)"
  "\<not> falsy (f_name (req_fields req)) \<Longrightarrow> \<not> falsy (f_description (req_fields req)) \<Longrightarrow>
   \<not> falsy (f_price (req_fields req)) \<Longrightarrow> \<not> falsy (f_category (req_fields req)) \<Longrightarrow>
   falsy (f_quantity (req_fields req)) \<Longrightarrow>
     CreateProducts e req d = (send 500 (ErrorBody ''Quantity is Required''), d)"
  by (simp_all add: CreateProducts_def CreateProducts_try_def)

lemma CreateProducts_photo_guard:
  assumes "\<not> falsy (f_name (req_fields req))" "\<not> falsy (f_description (req_fields req))"
    "\<not> falsy (f_price (req_fields req))" "\<not> falsy (f_category (req_fields req))"
    "\<not> falsy (f_quantity (req_fields req))"
    "(case req_photo req of None \<Rightarrow> True | Some up \<Rightarrow> 1000000 < u_size up)"
  shows "CreateProducts e req d = (send 400 (ErrorBody photo_message), d)"
  using assms
  by (simp add: CreateProducts_def CreateProducts_try_def split: option.splits)

text \<open>
  C3 (as amended). A create request that lacks at least one required attribute is answered
  with an error whose message names the first lacking attribute in the order name,
  description, price, category, quantity, photo, whatever the other attributes are, and
  nothing is stored; the status is 500 when the attribute is one of the five form fields
  and 400 when it is the photo.
\<close>

theorem CreateProducts_names_first_lacking_field:
  assumes "first_lacking req = Some f"
  shows "CreateProducts e req d =
           (send (if f = Photo then 400 else 500) (ErrorBody (required_message f)), d)"
proof -
  consider
      (n) "falsy (f_name (req_fields req))"
    | (de) "\<not> falsy (f_name (req_fields req))" "falsy (f_description (req_fields req))"
    | (pr) "\<not> falsy (f_name (req_fields req))" "\<not> falsy (f_description (req_fields req))"
        "falsy (f_price (req_fields req))"
    | (c) "\<not> falsy (f_name (req_fields req))" "\<not> falsy (f_description (req_fields req))"
        "\<not> falsy (f_price (req_fields req))" "falsy (f_category (req_fields req))"
    | (q) "\<not> falsy (f_name (req_fields req))" "\<not> falsy (f_description (req_fields req))"
        "\<not> falsy (f_price (req_fields req))" "\<not> falsy (f_category (req_fields req))"
        "falsy (f_quantity (req_fields req))"
    | (ph) "\<not> falsy (f_name (req_fields req))" "\<not> falsy (f_description (req_fields req))"
        "\<not> falsy (f_price (req_fields req))" "\<not> falsy (f_category (req_fields req))"
        "\<not> falsy (f_quantity (req_fields req))"
    by blast
  then show ?thesis
  proof cases
    case n
    with assms have "f = Name" by (simp add: first_lacking_def)
    with n show ?thesis by (simp add: CreateProducts_missing_field)
  next
    case de
    with assms have "f = Description" by (simp add: first_lacking_def)
    with de show ?thesis by (simp add: CreateProducts_missing_field)
  next
    case pr
    with assms have "f = Price" by (simp add: first_lacking_def)
    with pr show ?thesis by (simp add: CreateProducts_missing_field)
  next
    case c
    with assms have "f = Category" by (simp add: first_lacking_def)
    with c show ?thesis by (simp add: CreateProducts_missing_field)
  next
    case q
    with assms have "f = Quantity" by (simp add: first_lacking_def)
    with q show ?thesis by (simp add: CreateProducts_missing_field)
  next
    case ph
    with assms have "f = Photo \<and> req_photo req = None"
      by (simp add: first_lacking_def split: if_splits)
    with ph show ?thesis by (simp add: CreateProducts_photo_guard photo_message_def)
  qed
qed

theorem CreateProducts_names_first_lacking_field_witness:
  "first_lacking \<lparr>req_fields = full_fields\<lparr>f_price := None, f_quantity := Some []\<rparr>,
                  req_photo = None\<rparr> = Some Price
   \<and> CreateProducts sample_deps
        \<lparr>req_fields = full_fields\<lparr>f_price := None, f_quantity := Some []\<rparr>, req_photo = None\<rparr>
        sample_db
       = (send 500 (ErrorBody ''Price is Required''), sample_db)
   \<and> first_lacking \<lparr>req_fields = full_fields, req_photo = None\<rparr> = Some Photo
   \<and> CreateProducts sample_deps \<lparr>req_fields = full_fields, req_photo = None\<rparr> sample_db
       = (send 400 (ErrorBody ''Photo is Required and should be less than 1MB''), sample_db)"
proof -
  have h1: "first_lacking \<lparr>req_fields = full_fields\<lparr>f_price := None, f_quantity := Some []\<rparr>,
                  req_photo = None\<rparr> = Some Price"
    by (simp add: first_lacking_def full_fields_def falsy_def)
  have h2: "first_lacking \<lparr>req_fields = full_fields, req_photo = None\<rparr> = Some Photo"
    by (simp add: first_lacking_def full_fields_def falsy_def)
  show ?thesis
    using h1 h2 CreateProducts_names_first_lacking_field [OF h1, of sample_deps sample_db]
      CreateProducts_names_first_lacking_field [OF h2, of sample_deps sample_db]
    by simp
qed

text \<open>A request without a name is answered with status 500.\<close>

theorem CreateProducts_missing_name_counterexample:
  "CreateProducts sample_deps \<lparr>req_fields = full_fields\<lparr>f_name := None\<rparr>, req_photo = None\<rparr>
     sample_db
   = (Sent \<lparr>status = 500, header_ContentType = None, body = ErrorBody ''Name is Required''\<rparr>,
      sample_db)"
  by (simp add: CreateProducts_missing_field full_fields_def falsy_def send_def)

text \<open>
  C4 (as amended). The photo is required at product creation: a create request in which
  name, description, price, category and quantity are all present and no photo file is
  supplied is rejected with status 400 and the message that a photo is required, and no
  product is stored.
\<close>

theorem CreateProducts_requires_photo:
  assumes "\<not> falsy (f_name (req_fields req))" "\<not> falsy (f_description (req_fields req))"
    "\<not> falsy (f_price (req_fields req))" "\<not> falsy (f_category (req_fields req))"
    "\<not> falsy (f_quantity (req_fields req))" "req_photo req = None"
  shows "CreateProducts e req d =
           (send 400 (ErrorBody ''Photo is Required and should be less than 1MB''), d)"
  using assms by (simp add: CreateProducts_photo_guard [unfolded photo_message_def])

theorem CreateProducts_requires_photo_witness:
  "\<not> falsy (f_name full_fields) \<and> \<not> falsy (f_description full_fields)
   \<and> \<not> falsy (f_price full_fields) \<and> \<not> falsy (f_category full_fields)
   \<and> \<not> falsy (f_quantity full_fields)
   \<and> CreateProducts sample_deps \<lparr>req_fields = full_fields, req_photo = None\<rparr> empty_db =
       (send 400 (ErrorBody ''Photo is Required and should be less than 1MB''), empty_db)"
  using CreateProducts_requires_photo
    [of "\<lparr>req_fields = full_fields, req_photo = None\<rparr>" sample_deps empty_db]
  by (simp add: full_fields_def falsy_def)

text \<open>A complete request without a photo, on an empty store: status 400, store still
  empty.\<close>

theorem CreateProducts_without_photo_counterexample:
  "CreateProducts sample_deps \<lparr>req_fields = full_fields, req_photo = None\<rparr> empty_db =
     (Sent \<lparr>status = 400, header_ContentType = None,
            body = ErrorBody ''Photo is Required and should be less than 1MB''\<rparr>,
      \<lparr>products = [], categories = [], orders = []\<rparr>)"
  by (simp add: CreateProducts_def CreateProducts_try_def full_fields_def falsy_def send_def
      empty_db_def photo_message_def)

subsection \<open>The photo size bound\<close>

lemma rejected_send:
  "rejected (send 500 (ErrorBody ''Name is Required''))"
  "rejected (send 500 (ErrorBody ''Description is Required''))"
  "rejected (send 500 (ErrorBody ''Price is Required''))"
  "rejected (send 500 (ErrorBody ''Category is Required''))"
  "rejected (send 500 (ErrorBody ''Quantity is Required''))"
  "rejected (send 400 (ErrorBody photo_message))"
  "rejected (send 500 (ErrorBody photo_message))"
  by (simp_all add: rejected_def send_def photo_message_def)

lemma CreateProducts_oversize:
  assumes "req_photo req = Some up" "1000000 < u_size up"
  shows "rejected (fst (CreateProducts e req d)) \<and> snd (CreateProducts e req d) = d"
proof (cases "first_lacking req")
  case None
  then have "\<not> falsy (f_name (req_fields req))" "\<not> falsy (f_description (req_fields req))"
    "\<not> falsy (f_price (req_fields req))" "\<not> falsy (f_category (req_fields req))"
    "\<not> falsy (f_quantity (req_fields req))"
    by (simp_all add: first_lacking_def split: if_splits)
  with assms have "CreateProducts e req d = (send 400 (ErrorBody photo_message), d)"
    by (simp add: CreateProducts_photo_guard)
  then show ?thesis by (simp add: rejected_send)
next
  case (Some f)
  from assms have "\<not> lacking req Photo" by simp
  with Some have "f \<noteq> Photo"
    by (auto simp: first_lacking_def split: if_splits)
  moreover have "CreateProducts e req d =
      (send (if f = Photo then 400 else 500) (ErrorBody (required_message f)), d)"
    using Some assms by (simp add: CreateProducts_missing_field first_lacking_def split: if_splits)
  ultimately show ?thesis
    by (cases f) (simp_all add: rejected_send)
qed

lemma UpdateProduct_oversize:
  assumes "req_photo req = Some up" "1000000 < u_size up"
  shows "rejected (fst (UpdateProduct e i req d)) \<and> snd (UpdateProduct e i req d) = d"
  using assms by (simp add: UpdateProduct_def Let_def rejected_send)

lemma UpdateProduct_oversize_valid:
  assumes "req_photo req = Some up" "1000000 < u_size up"
    "\<not> falsy (f_name (req_fields req))" "\<not> falsy (f_description (req_fields req))"
    "\<not> falsy (f_price (req_fields req))" "\<not> falsy (f_category (req_fields req))"
    "\<not> falsy (f_quantity (req_fields req))"
  shows "UpdateProduct e i req d = (send 500 (ErrorBody photo_message), d)"
  using assms by (simp add: UpdateProduct_def Let_def)

text \<open>
  C5. A create request and an update request that carry a photo of more than 1,000,000
  bytes are rejected with a validation message and leave the store as it was, whatever the
  other fields are; when the other required fields are all present the message is the
  photo message (status 400 from create, 500 from update).
\<close>

theorem oversize_photo_rejected:
  assumes "req_photo req = Some up" "1000000 < u_size up"
  shows "rejected (fst (CreateProducts e req d)) \<and> snd (CreateProducts e req d) = d
       \<and> rejected (fst (UpdateProduct e i req d)) \<and> snd (UpdateProduct e i req d) = d
       \<and> (first_lacking req = None \<longrightarrow>
            CreateProducts e req d =
              (send 400 (ErrorBody ''Photo is Required and should be less than 1MB''), d)
          \<and> UpdateProduct e i req d =
              (send 500 (ErrorBody ''Photo is Required and should be less than 1MB''), d))"
proof -
  have "CreateProducts e req d = (send 400 (ErrorBody photo_message), d)
      \<and> UpdateProduct e i req d = (send 500 (ErrorBody photo_message), d)"
    if "first_lacking req = None"
  proof -
    from that have v: "\<not> falsy (f_name (req_fields req))"
      "\<not> falsy (f_description (req_fields req))"
      "\<not> falsy (f_price (req_fields req))" "\<not> falsy (f_category (req_fields req))"
      "\<not> falsy (f_quantity (req_fields req))"
      by (simp_all add: first_lacking_def split: if_splits)
    from v assms show ?thesis
      by (simp add: CreateProducts_photo_guard UpdateProduct_oversize_valid)
  qed
  then show ?thesis
    using CreateProducts_oversize [OF assms] UpdateProduct_oversize [OF assms]
    by (simp add: photo_message_def)
qed

theorem oversize_photo_rejected_witness:
  "1000000 < u_size big_photo
   \<and> CreateProducts sample_deps \<lparr>req_fields = full_fields, req_photo = Some big_photo\<rparr> sample_db =
       (send 400 (ErrorBody ''Photo is Required and should be less than 1MB''), sample_db)
   \<and> UpdateProduct sample_deps 2 \<lparr>req_fields = full_fields, req_photo = Some big_photo\<rparr> sample_db =
       (send 500 (ErrorBody ''Photo is Required and should be less than 1MB''), sample_db)
   \<and> rejected (fst (CreateProducts sample_deps
        \<lparr>req_fields = full_fields\<lparr>f_price := Some []\<rparr>, req_photo = Some big_photo\<rparr> sample_db))
   \<and> snd (UpdateProduct sample_deps 2
        \<lparr>req_fields = full_fields\<lparr>f_price := Some []\<rparr>, req_photo = Some big_photo\<rparr> sample_db)
       = sample_db"
proof -
  have h: "1000000 < u_size big_photo" by (simp add: big_photo_def)
  have l: "first_lacking \<lparr>req_fields = full_fields, req_photo = Some big_photo\<rparr> = None"
    by (simp add: first_lacking_def full_fields_def falsy_def)
  show ?thesis
    using h l
      oversize_photo_rejected [of "\<lparr>req_fields = full_fields, req_photo = Some big_photo\<rparr>"
        big_photo sample_deps sample_db 2]
      oversize_photo_rejected
        [of "\<lparr>req_fields = full_fields\<lparr>f_price := Some []\<rparr>, req_photo = Some big_photo\<rparr>"
          big_photo sample_deps sample_db 2]
    by simp
qed

subsection \<open>Paginated list\<close>














subsection \<open>Keyword search\<close>

lemma compile_regex_literal:
  "\<not> list_ex (\<lambda>c. c \<in> set regex_special) kw \<Longrightarrow> compile_regex kw = Some (map Lit kw)"
proof (induction kw)
  case Nil
  show ?case by simp
next
  case (Cons c cs)
  then have "c \<notin> set regex_special" and "compile_regex cs = Some (map Lit cs)"
    by simp_all
  moreover from \<open>c \<notin> set regex_special\<close> have "c \<noteq> CHR ''.''"
    by (auto simp: regex_special_def)
  ultimately show ?case by simp
qed

lemma match_here_literal:
  "match_here (map Lit kw) s = prefix (map lower kw) (map lower s)"
proof (induction kw arbitrary: s)
  case Nil
  show ?case by simp
next
  case (Cons k ks)
  show ?case
  proof (cases s)
    case Nil
    then show ?thesis by simp
  next
    case (Cons c cs)
    with Cons.IH [of cs] show ?thesis by simp
  qed
qed

lemma regex_test_literal:
  "regex_test (map Lit kw) s = contains_ci kw s"
proof (induction s)
  case Nil
  show ?case by (cases kw) (simp_all add: contains_ci_def)
next
  case (Cons c cs)
  have "regex_test (map Lit kw) (c # cs) =
      (prefix (map lower kw) (map lower (c # cs)) \<or> contains_ci kw cs)"
    using Cons.IH by (simp only: regex_test.simps match_here_literal)
  also have "\<dots> = contains_ci kw (c # cs)"
    by (simp add: contains_ci_def sublist_Cons_right)
  finally show ?case .
qed

lemma exec_find_minus_photo:
  "exec_find d (select_minus_photo (find_q c)) =
     Inr (map without_photo (filter c (products d)))"
  by (simp add: exec_find_def select_minus_photo_def find_q_def shape_minus_photo)

lemma ProductSearch_empty:
  "falsy k \<Longrightarrow> ProductSearch k d = Some (send 400 (FailureMessage ''Keyword is required.''))"
  by (simp add: ProductSearch_def)

lemma ProductSearch_literal:
  assumes "kw \<noteq> []" "\<not> list_ex (\<lambda>c. c \<in> set regex_special) kw"
  shows "ProductSearch (Some kw) d =
      Some (send 200 (ProductArray (map without_photo
        (filter (\<lambda>p. contains_ci kw (name p) \<or> contains_ci kw (description p)) (products d)))))"
proof -
  have "\<not> falsy (Some kw)" using assms(1) by (simp add: falsy_def)
  moreover have "compile_regex (str (Some kw)) = Some (map Lit kw)"
    using assms(2) by (simp add: str_def compile_regex_literal)
  ultimately show ?thesis
    by (simp add: ProductSearch_def exec_find_minus_photo regex_test_literal)
qed

text \<open>
  C7 (as amended). The keyword is read as a regular expression. For every non-empty
  keyword that holds no regular-expression operator, \<open>ProductSearch\<close> returns exactly the
  products whose name or description contains the keyword as a substring, letter case
  disregarded, in stored order, with the photo excluded; an empty keyword is answered with
  status 400 and a message that the keyword is required.
\<close>

theorem ProductSearch_literal_keyword:
  "(kw \<noteq> [] \<and> \<not> list_ex (\<lambda>c. c \<in> set regex_special) kw \<longrightarrow>
      ProductSearch (Some kw) d =
        Some (send 200 (ProductArray (map without_photo
          (filter (\<lambda>p. contains_ci kw (name p) \<or> contains_ci kw (description p))
             (products d))))))
   \<and> (falsy k \<longrightarrow>
        ProductSearch k d = Some (send 400 (FailureMessage ''Keyword is required.'')))"
  by (simp add: ProductSearch_literal ProductSearch_empty)

lemma lower_simps:
  "lower CHR ''B'' = CHR ''b''" "lower CHR ''L'' = CHR ''l''" "lower CHR ''U'' = CHR ''u''"
  "lower CHR ''E'' = CHR ''e''" "lower CHR ''A'' = CHR ''a''"
  "lower CHR ''a'' = CHR ''a''" "lower CHR ''b'' = CHR ''b''" "lower CHR ''c'' = CHR ''c''"
  "lower CHR ''d'' = CHR ''d''" "lower CHR ''e'' = CHR ''e''" "lower CHR ''g'' = CHR ''g''"
  "lower CHR ''h'' = CHR ''h''" "lower CHR ''i'' = CHR ''i''" "lower CHR ''k'' = CHR ''k''"
  "lower CHR ''l'' = CHR ''l''" "lower CHR ''m'' = CHR ''m''" "lower CHR ''n'' = CHR ''n''"
  "lower CHR ''o'' = CHR ''o''" "lower CHR ''p'' = CHR ''p''" "lower CHR ''r'' = CHR ''r''"
  "lower CHR ''s'' = CHR ''s''" "lower CHR ''t'' = CHR ''t''" "lower CHR ''u'' = CHR ''u''"
  "lower CHR '' '' = CHR '' ''" "lower CHR ''.'' = CHR ''.''"
  by (simp_all add: lower_def char_of_eq_iff)

theorem ProductSearch_literal_keyword_witness:
  "''BLUE'' \<noteq> [] \<and> \<not> list_ex (\<lambda>c. c \<in> set regex_special) ''BLUE'' \<and> falsy (Some [])
   \<and> ProductSearch (Some ''BLUE'') sample_db =
       Some (send 200 (ProductArray [without_photo (mk_product 1 ''lamp'' ''A Blue light'' 100)]))
   \<and> ProductSearch (Some []) sample_db =
       Some (send 400 (FailureMessage ''Keyword is required.''))"
proof -
  have h: "\<not> list_ex (\<lambda>c. c \<in> set regex_special) ''BLUE''"
    by (simp add: regex_special_def)
  have f: "falsy (Some [])" by (simp add: falsy_def)
  show ?thesis
    using h f ProductSearch_literal_keyword [of "''BLUE''" sample_db "Some []"]
    by (simp add: sample_db_def mk_product_def contains_ci_def lower_simps sublist_code)
qed

text \<open>The keyword \<open>.\<close> matches any character: every product with a non-empty name is
  returned, among them one whose name and description hold no dot.\<close>

theorem ProductSearch_dot_counterexample:
  "ProductSearch (Some ''.'') sample_db =
     Some (send 200 (ProductArray
       [without_photo (mk_product 1 ''lamp'' ''A Blue light'' 100),
        without_photo (mk_product 2 ''desk'' ''oak'' 300),
        without_photo (mk_product 3 ''chair'' ''pine'' 200)]))
   \<and> \<not> contains_ci ''.'' ''desk'' \<and> \<not> contains_ci ''.'' ''oak''"
  by (simp add: ProductSearch_def falsy_def str_def exec_find_minus_photo sample_db_def
      mk_product_def contains_ci_def lower_simps sublist_code)


subsection \<open>Photo fetch\<close>

lemma productPhotoContrller_found:
  "findById (products d) pid = Some p \<Longrightarrow>
   productPhotoContrller pid d =
     Sent \<lparr>status = 200, header_ContentType = photo_contentType p, body = Bytes (photo_data p)\<rparr>"
  by (simp add: productPhotoContrller_def)

text \<open>
  C8. For an id that no product carries, \<open>productPhotoContrller\<close> returns without
  sending anything: neither a not-found answer nor an empty one is produced.
\<close>

theorem productPhotoContrller_unknown_id_no_response:
  "productPhotoContrller 9 sample_db = NoResponse"
  by (simp add: productPhotoContrller_def findById_def sample_db_def mk_product_def)

subsection \<open>Payment\<close>

lemma foldl_price_sum: "foldl (\<lambda>t i. t + li_price i) a c = a + sum_list (map li_price c)"
  by (induction c arbitrary: a) simp_all

lemma payment_amount_is_sum_of_prices:
  "cart req = Some c \<Longrightarrow>
   map_option amount (pr_sale (brainTreePaymentController gw req os)) =
     Some (sum_list (map li_price c))"
  by (simp add: brainTreePaymentController_def Let_def foldl_price_sum split: prod.splits option.splits)

lemma payment_gateway_failure:
  "cart req = Some c \<Longrightarrow>
   gw \<lparr>amount = sum_list (map li_price c), paymentMethodNonce = nonce req,
       submitForSettlement = True\<rparr> = (err, None) \<Longrightarrow>
   pr_outcome (brainTreePaymentController gw req os) = send 500 (GatewayErrorBody err)
   \<and> pr_orders (brainTreePaymentController gw req os) = os"
  by (simp add: brainTreePaymentController_def Let_def foldl_price_sum)

lemma orderModel_unbound: "\<not> bound_in_module ''orderModel''"
  by (simp add: bound_in_module_def module_scope_def)

text \<open>
  C1. For the cart with prices 10 and 25 and a gateway that reports success, the sale is
  submitted with amount 35, but the callback then throws a ReferenceError, because
  \<open>orderModel\<close> is not bound in the module: no order is persisted and no response is sent.
\<close>

theorem brainTreePaymentController_success_persists_no_order:
  "brainTreePaymentController accepting_gateway sample_payment [] =
     \<lparr>pr_outcome = Thrown (ReferenceError ''orderModel is not defined''),
      pr_orders = [],
      pr_sale = Some \<lparr>amount = 35, paymentMethodNonce = Some ''fake-valid-nonce'',
                      submitForSettlement = True\<rparr>\<rparr>"
  by (simp add: brainTreePaymentController_def accepting_gateway_def sample_payment_def
      orderModel_unbound)

end
